theory Spec2Isabelle
  imports Main
begin

text \<open>
  A model of the wallet ledger and of the payment confirmation of the print portal's
  backend. The repository holds two versions of the Express server: \<open>src/server.js\<close>, which
  stores one wallet document per change, and \<open>src/unnamed/part_000\<close> (the second server
  file below), whose route \<open>/api/wallet/add\<close> keeps one wallet per user with running totals
  and a list of transactions. The payment routes are the same in both. The database and
  the payment gateway are outside the files: the collection is a value passed through each
  route, and the gateway, the keyed hash and the clock are parameters.
\<close>

section \<open>JavaScript values\<close>

text \<open>
  The request bodies of the server are parsed JSON, so every field the handlers read is a
  dynamically typed JavaScript value. The model covers the primitive values. A Number is an
  integer or \<open>NaN\<close>: fractions, infinities and the rounding of IEEE doubles are outside the
  model, and so are fields whose value is an array or an object.
\<close>

datatype number = Num int | NaN

datatype jsval = JUndefined | JNull | JBool bool | JNumber number | JString string

text \<open>\<open>!v\<close> is false exactly for the truthy values.\<close>

fun truthy :: "jsval \<Rightarrow> bool" where
  "truthy JUndefined = False"
| "truthy JNull = False"
| "truthy (JBool b) = b"
| "truthy (JNumber (Num n)) = (n \<noteq> 0)"
| "truthy (JNumber NaN) = False"
| "truthy (JString s) = (s \<noteq> [])"

fun js_typeof :: "jsval \<Rightarrow> string" where
  "js_typeof JUndefined = ''undefined''"
| "js_typeof JNull = ''object''"
| "js_typeof (JBool b) = ''boolean''"
| "js_typeof (JNumber n) = ''number''"
| "js_typeof (JString s) = ''string''"

text \<open>Decimal printing of an integer, as \<open>String(n)\<close> prints it.\<close>

definition digit_char :: "nat \<Rightarrow> char" where
  "digit_char d = char_of (48 + d)"

fun nat_to_string :: "nat \<Rightarrow> string" where
  "nat_to_string n =
     (if n < 10 then [digit_char n] else nat_to_string (n div 10) @ [digit_char (n mod 10)])"

declare nat_to_string.simps [simp del]

definition int_to_string :: "int \<Rightarrow> string" where
  "int_to_string i = (if i < 0 then CHR ''-'' # nat_to_string (nat (- i)) else nat_to_string (nat i))"

fun number_to_string :: "number \<Rightarrow> string" where
  "number_to_string (Num n) = int_to_string n"
| "number_to_string NaN = ''NaN''"

fun js_to_string :: "jsval \<Rightarrow> string" where
  "js_to_string JUndefined = ''undefined''"
| "js_to_string JNull = ''null''"
| "js_to_string (JBool b) = (if b then ''true'' else ''false'')"
| "js_to_string (JNumber n) = number_to_string n"
| "js_to_string (JString s) = s"

text \<open>
  \<open>ToNumber\<close> of a value. The conversion of a string (\<open>StringToNumber\<close>) is a parameter
  \<open>parse\<close>: only the product \<open>amount * 100\<close> of the order route can reach it.
\<close>

fun to_number :: "(string \<Rightarrow> number) \<Rightarrow> jsval \<Rightarrow> number" where
  "to_number parse JUndefined = NaN"
| "to_number parse JNull = Num 0"
| "to_number parse (JBool b) = Num (if b then 1 else 0)"
| "to_number parse (JNumber n) = n"
| "to_number parse (JString s) = parse s"

fun num_add :: "number \<Rightarrow> number \<Rightarrow> number" where
  "num_add (Num a) (Num b) = Num (a + b)"
| "num_add _ _ = NaN"

fun num_mul :: "number \<Rightarrow> number \<Rightarrow> number" where
  "num_mul (Num a) (Num b) = Num (a * b)"
| "num_mul _ _ = NaN"

text \<open>\<open>p >= 0\<close> on a Number: every comparison with \<open>NaN\<close> is false.\<close>

fun num_ge0 :: "number \<Rightarrow> bool" where
  "num_ge0 (Num n) = (0 \<le> n)"
| "num_ge0 NaN = False"

text \<open>
  The operator \<open>+\<close>: concatenation of the operands' strings as soon as one of them is a
  string, the sum of their numbers otherwise (no string is converted then, so the
  conversion of strings does not matter).
\<close>

fun is_string :: "jsval \<Rightarrow> bool" where
  "is_string (JString s) = True"
| "is_string _ = False"

definition js_add :: "jsval \<Rightarrow> jsval \<Rightarrow> jsval" where
  "js_add a b =
     (if is_string a \<or> is_string b then JString (js_to_string a @ js_to_string b)
      else JNumber (num_add (to_number (\<lambda>s. NaN) a) (to_number (\<lambda>s. NaN) b)))"

definition js_mul :: "(string \<Rightarrow> number) \<Rightarrow> jsval \<Rightarrow> jsval \<Rightarrow> number" where
  "js_mul parse a b = num_mul (to_number parse a) (to_number parse b)"

text \<open>\<open>a || b\<close>.\<close>

definition js_or :: "jsval \<Rightarrow> jsval \<Rightarrow> jsval" where
  "js_or a b = (if truthy a then a else b)"

text \<open>A parsed JSON object; a key that is absent reads as \<open>undefined\<close>.\<close>

type_synonym json_object = "(string \<times> jsval) list"

definition js_get :: "json_object \<Rightarrow> string \<Rightarrow> jsval" where
  "js_get obj k = (case map_of obj k of None \<Rightarrow> JUndefined | Some v \<Rightarrow> v)"

text \<open>A destructuring default \<open>{ k = d }\<close>: the default stands in for \<open>undefined\<close> only.\<close>

definition default_to :: "jsval \<Rightarrow> jsval \<Rightarrow> jsval" where
  "default_to d v = (if v = JUndefined then d else v)"

section \<open>The wallet collection\<close>

text \<open>
  Both server files declare the model \<open>Wallet\<close> with the same schema (lines 35 to 41):
  \<^verbatim>\<open>
  const walletSchema = new mongoose.Schema({
    userId: String,
    points: { type: Number, default: 0 },
    rupees: { type: Number, default: 0 },
    date: { type: Date, default: Date.now },
  });
  const Wallet = mongoose.model("Wallet", walletSchema);
  \<close>
  A schema is modelled by the list of the paths it declares, so that the handlers can be
  read under the schema of the source and under any other one.
\<close>

type_synonym schema = "string list"

definition walletSchema :: schema where
  "walletSchema = [''userId'', ''points'', ''rupees'', ''date'']"

definition declares :: "schema \<Rightarrow> string \<Rightarrow> bool" where
  "declares sch p = (p \<in> set sch)"

text \<open>An entry of a wallet's \<open>transactions\<close> array, as the route \<open>/api/wallet/add\<close> builds it.\<close>

record transaction =
  tx_points :: number
  tx_rupees :: jsval
  tx_type :: string
  tx_note :: jsval

text \<open>
  A wallet object: the four paths of \<open>walletSchema\<close> (prefixed \<open>w_\<close>, since the request
  fields bear the same names) and the three properties that the route \<open>/api/wallet/add\<close> of
  the second server file reads and writes. The same record stands for the plain object handed
  to the constructor, for the document in memory and for the stored document; a property
  that is not set is \<open>undefined\<close> (\<open>None\<close> for the date and the array).
\<close>

record wallet =
  w_userId :: jsval
  w_points :: jsval
  w_rupees :: jsval
  w_date :: "nat option"
  totalPoints :: jsval
  totalRupees :: jsval
  transactions :: "transaction list option"

definition no_wallet_props :: wallet where
  "no_wallet_props =
     \<lparr>w_userId = JUndefined, w_points = JUndefined, w_rupees = JUndefined, w_date = None,
      totalPoints = JUndefined, totalRupees = JUndefined, transactions = None\<rparr>"

text \<open>Mongoose casts a value for a \<open>String\<close> path with \<open>toString\<close>; null and undefined stay.\<close>

fun cast_String :: "jsval \<Rightarrow> jsval" where
  "cast_String JUndefined = JUndefined"
| "cast_String JNull = JNull"
| "cast_String v = JString (js_to_string v)"

text \<open>
  Mongoose schemas are strict unless declared otherwise, and neither file declares
  otherwise: a property whose path the schema does not declare is not part of the document.
  The constructor drops it, \<open>save\<close> does not store it, and on a document read back by
  \<open>findOne\<close> it reads as \<open>undefined\<close>. An assignment to such a property of a document in
  memory sets a plain property of the JavaScript object, which is lost with the object.
  \<open>write_paths sch old w\<close> writes the declared paths of \<open>w\<close> over \<open>old\<close>.
\<close>

definition write_paths :: "schema \<Rightarrow> wallet \<Rightarrow> wallet \<Rightarrow> wallet" where
  "write_paths sch old w =
     \<lparr>w_userId = (if declares sch ''userId'' then w_userId w else w_userId old),
      w_points = (if declares sch ''points'' then w_points w else w_points old),
      w_rupees = (if declares sch ''rupees'' then w_rupees w else w_rupees old),
      w_date = (if declares sch ''date'' then w_date w else w_date old),
      totalPoints = (if declares sch ''totalPoints'' then totalPoints w else totalPoints old),
      totalRupees = (if declares sch ''totalRupees'' then totalRupees w else totalRupees old),
      transactions = (if declares sch ''transactions'' then transactions w else transactions old)\<rparr>"

definition strict :: "schema \<Rightarrow> wallet \<Rightarrow> wallet" where
  "strict sch w = write_paths sch no_wallet_props w"

text \<open>
  \<open>new Wallet(obj)\<close> at time \<open>now\<close>: the declared paths of \<open>obj\<close>, the user id cast to a
  string, and the defaults of the schema (\<open>0\<close>, \<open>0\<close>, \<open>Date.now\<close>) for points, rupees and
  date where \<open>obj\<close> gives none.
\<close>

definition new_Wallet :: "schema \<Rightarrow> nat \<Rightarrow> wallet \<Rightarrow> wallet" where
  "new_Wallet sch now obj =
     strict sch
       (obj\<lparr>w_userId := cast_String (w_userId obj),
            w_points := default_to (JNumber (Num 0)) (w_points obj),
            w_rupees := default_to (JNumber (Num 0)) (w_rupees obj),
            w_date := (case w_date obj of None \<Rightarrow> Some now | Some d \<Rightarrow> Some d)\<rparr>)"

text \<open>
  The collection is the list of the stored documents in insertion order; a document's
  position is its identity. \<open>findOne({ userId })\<close> casts the filter as the schema says and
  returns the first match, read under the schema, with its position.
\<close>

type_synonym collection = "wallet list"

definition findOne :: "schema \<Rightarrow> collection \<Rightarrow> jsval \<Rightarrow> (nat \<times> wallet) option" where
  "findOne sch coll userId =
     map_option (\<lambda>(i, w). (i, strict sch w))
       (List.find (\<lambda>(i, w). w_userId w = cast_String userId) (enumerate 0 coll))"

text \<open>
  \<open>wallet.save()\<close>: a new document (no position yet) is inserted, a document that was found
  is written back at its position; only the schema's paths are written.
\<close>

fun save :: "schema \<Rightarrow> collection \<Rightarrow> nat option \<Rightarrow> wallet \<Rightarrow> collection" where
  "save sch coll None w = coll @ [strict sch w]"
| "save sch coll (Some i) w = coll[i := write_paths sch (coll ! i) w]"

section \<open>The wallet routes of the second server file\<close>

text \<open>
  The entries of a wallet object; a wallet without the array has none, as line 204 has it:
  \<^verbatim>\<open>if (!wallet.transactions) wallet.transactions = [];\<close>
\<close>

definition entries :: "wallet \<Rightarrow> transaction list" where
  "entries w = (case transactions w of None \<Rightarrow> [] | Some ts \<Rightarrow> ts)"

text \<open>
  Lines 194 to 199 and 208 to 213: the entry for a change of \<open>points\<close> and \<open>rupees\<close>.
  \<^verbatim>\<open>{ points, rupees, type: points >= 0 ? "credit" : "debit", note }\<close>
\<close>

definition new_transaction :: "number \<Rightarrow> jsval \<Rightarrow> jsval \<Rightarrow> transaction" where
  "new_transaction points rupees note =
     \<lparr>tx_points = points, tx_rupees = rupees,
      tx_type = (if num_ge0 points then ''credit'' else ''debit''), tx_note = note\<rparr>"

text \<open>
  Lines 185 to 216, the operation the specification calls \<open>applyTransaction\<close>:
  \<^verbatim>\<open>
  let wallet = await Wallet.findOne({ userId });
  if (!wallet) {
    wallet = new Wallet({ userId, totalPoints: points, totalRupees: rupees,
                          transactions: [ { points, rupees, type: ..., note } ] });
  } else {
    if (!wallet.transactions) wallet.transactions = [];
    wallet.totalPoints += points;
    wallet.totalRupees += rupees;
    wallet.transactions.push({ points, rupees, type: ..., note });
  }
  await wallet.save();
  \<close>
  It returns the wallet object the handler holds after \<open>save\<close> and the new collection.
\<close>

definition applyTransaction ::
  "schema \<Rightarrow> nat \<Rightarrow> jsval \<Rightarrow> number \<Rightarrow> jsval \<Rightarrow> jsval \<Rightarrow> collection \<Rightarrow> wallet \<times> collection" where
  "applyTransaction sch now userId points rupees note coll =
     (case findOne sch coll userId of
        None \<Rightarrow>
          (let wallet = new_Wallet sch now
                 (no_wallet_props\<lparr>w_userId := userId, totalPoints := JNumber points,
                    totalRupees := rupees,
                    transactions := Some [new_transaction points rupees note]\<rparr>)
           in (wallet, save sch coll None wallet))
      | Some (i, found) \<Rightarrow>
          (let wallet = found\<lparr>
                 totalPoints := js_add (totalPoints found) (JNumber points),
                 totalRupees := js_add (totalRupees found) rupees,
                 transactions := Some (entries found @ [new_transaction points rupees note])\<rparr>
           in (wallet, save sch coll (Some i) wallet)))"

text \<open>The responses of the routes: the HTTP status and what the JSON body carries.\<close>

datatype response =
    Bad_Request string
  | Server_Error string
  | Wallet_Updated string jsval jsval
  | Balance jsval jsval
  | Wallet_Saved wallet
  | Order_Created json_object
  | Signature_Ok

text \<open>The Number a value of type \<open>"number"\<close> is.\<close>

fun the_number :: "jsval \<Rightarrow> number" where
  "the_number (JNumber n) = n"
| "the_number _ = NaN"

text \<open>
  \<open>POST /api/wallet/add\<close>, lines 174 to 235 of the second server file.
  \<^verbatim>\<open>
  const { userId, points, rupees = 0, note = "" } = req.body;
  if (!userId || typeof points !== "number") {
    return res.status(400).json({ success: false,
      message: "Missing or invalid fields (userId or points)" });
  }
  ... applyTransaction ...
  res.json({ success: true,
    message: points >= 0 ? "Wallet credited successfully" : "Wallet debited successfully",
    balance: { totalPoints: wallet.totalPoints, totalRupees: wallet.totalRupees } });
  \<close>
\<close>

definition wallet_add :: "schema \<Rightarrow> nat \<Rightarrow> json_object \<Rightarrow> collection \<Rightarrow> response \<times> collection" where
  "wallet_add sch now body coll =
     (let userId = js_get body ''userId'';
          points = js_get body ''points'';
          rupees = default_to (JNumber (Num 0)) (js_get body ''rupees'');
          note = default_to (JString []) (js_get body ''note'')
      in if \<not> truthy userId \<or> js_typeof points \<noteq> ''number''
         then (Bad_Request ''Missing or invalid fields (userId or points)'', coll)
         else
           (let (wallet, coll') = applyTransaction sch now userId (the_number points) rupees note coll
            in (Wallet_Updated
                  (if num_ge0 (the_number points) then ''Wallet credited successfully''
                   else ''Wallet debited successfully'')
                  (totalPoints wallet) (totalRupees wallet),
                coll')))"

text \<open>
  \<open>GET /api/wallet/balance/:userId\<close>, lines 240 to 258 of the second server file.
  \<^verbatim>\<open>
  const wallet = await Wallet.findOne({ userId: req.params.userId });
  if (!wallet) return res.json({ success: true, totalPoints: 0, totalRupees: 0 });
  res.json({ success: true, totalPoints: wallet.totalPoints || 0,
                            totalRupees: wallet.totalRupees || 0 });
  \<close>
\<close>

definition wallet_balance :: "schema \<Rightarrow> collection \<Rightarrow> string \<Rightarrow> response" where
  "wallet_balance sch coll userId =
     (case findOne sch coll (JString userId) of
        None \<Rightarrow> Balance (JNumber (Num 0)) (JNumber (Num 0))
      | Some (i, wallet) \<Rightarrow>
          Balance (js_or (totalPoints wallet) (JNumber (Num 0)))
                  (js_or (totalRupees wallet) (JNumber (Num 0))))"

section \<open>The wallet routes of server.js\<close>

text \<open>
  The file \<open>server.js\<close> keeps one document per change and sums them on reading. Mongoose
  casts a value for a \<open>Number\<close> path: a string or boolean goes through \<open>Number(v)\<close>, the
  empty string becomes null, and a value that is not a number afterwards is a cast error,
  which \<open>save\<close> reports (\<open>None\<close> here).
\<close>

fun cast_Number :: "(string \<Rightarrow> number) \<Rightarrow> jsval \<Rightarrow> jsval option" where
  "cast_Number parse JUndefined = Some JUndefined"
| "cast_Number parse JNull = Some JNull"
| "cast_Number parse (JBool b) = Some (JNumber (Num (if b then 1 else 0)))"
| "cast_Number parse (JNumber (Num n)) = Some (JNumber (Num n))"
| "cast_Number parse (JNumber NaN) = None"
| "cast_Number parse (JString s) =
     (if s = [] then Some JNull
      else (case parse s of NaN \<Rightarrow> None | Num n \<Rightarrow> Some (JNumber (Num n))))"

text \<open>
  \<open>POST /api/wallet/add\<close>, lines 175 to 191 of \<open>server.js\<close>.
  \<^verbatim>\<open>
  const { userId, points, rupees } = req.body;
  if (!userId || !points || !rupees)
    return res.status(400).json({ success: false, message: "Missing required fields" });
  const wallet = new Wallet({ userId, points, rupees });
  await wallet.save();
  res.json({ success: true, message: "Wallet updated successfully", wallet });
  \<close>
  A rejected \<open>save\<close> is caught and answered with status 500.
\<close>

definition wallet_add_events ::
  "(string \<Rightarrow> number) \<Rightarrow> nat \<Rightarrow> json_object \<Rightarrow> collection \<Rightarrow> response \<times> collection" where
  "wallet_add_events parse now body coll =
     (let userId = js_get body ''userId'';
          points = js_get body ''points'';
          rupees = js_get body ''rupees''
      in if \<not> truthy userId \<or> \<not> truthy points \<or> \<not> truthy rupees
         then (Bad_Request ''Missing required fields'', coll)
         else
           (case (cast_Number parse points, cast_Number parse rupees) of
              (Some p, Some r) \<Rightarrow>
                (let wallet = new_Wallet walletSchema now
                       (no_wallet_props\<lparr>w_userId := userId, w_points := p, w_rupees := r\<rparr>)
                 in (Wallet_Saved wallet, save walletSchema coll None wallet))
            | _ \<Rightarrow> (Server_Error ''Wallet validation failed'', coll)))"

text \<open>
  \<open>GET /api/wallet/balance/:userId\<close>, lines 194 to 205 of \<open>server.js\<close>.
  \<^verbatim>\<open>
  const walletData = await Wallet.find({ userId: req.params.userId }).sort({ date: -1 });
  const totalPoints = walletData.reduce((sum, w) => sum + w.points, 0);
  const totalRupees = walletData.reduce((sum, w) => sum + w.rupees, 0);
  res.json({ success: true, totalPoints, totalRupees });
  \<close>
\<close>

definition newest_first :: "wallet \<Rightarrow> int" where
  "newest_first w = (case w_date w of None \<Rightarrow> 1 | Some d \<Rightarrow> - int d)"

definition find_sorted :: "collection \<Rightarrow> string \<Rightarrow> wallet list" where
  "find_sorted coll userId =
     sort_key newest_first
       (filter (\<lambda>w. w_userId w = JString userId) (map (strict walletSchema) coll))"

definition wallet_balance_events :: "collection \<Rightarrow> string \<Rightarrow> response" where
  "wallet_balance_events coll userId =
     (let walletData = find_sorted coll userId
      in Balance (foldl (\<lambda>sum w. js_add sum (w_points w)) (JNumber (Num 0)) walletData)
                 (foldl (\<lambda>sum w. js_add sum (w_rupees w)) (JNumber (Num 0)) walletData))"

section \<open>The payment routes\<close>

text \<open>
  The two payment routes are the same text in both server files (lines 124 to 168). The
  payment gateway is a parameter: \<open>gateway options\<close> is the order it creates, or the message
  of the error it rejects the call with. The route returns its response and the list of the
  orders it submitted to the gateway.
  \<^verbatim>\<open>
  const { amount } = req.body;
  if (!amount)
    return res.status(400).json({ success: false, message: "Amount is required" });
  const options = { amount: amount * 100, currency: "INR", receipt: "rcpt_" + Date.now() };
  const order = await razorpay.orders.create(options);
  res.json({ success: true, order });
  \<close>
  with \<open>catch (err) { res.status(500).json({ success: false, message: err.message }) }\<close>.
\<close>

record order_options =
  o_amount :: number
  o_currency :: string
  o_receipt :: string

definition payment_order ::
  "(string \<Rightarrow> number) \<Rightarrow> (order_options \<Rightarrow> string + json_object) \<Rightarrow> nat \<Rightarrow> json_object
     \<Rightarrow> response \<times> order_options list" where
  "payment_order parse gateway now body =
     (let amount = js_get body ''amount''
      in if \<not> truthy amount then (Bad_Request ''Amount is required'', [])
         else
           (let options = \<lparr>o_amount = js_mul parse amount (JNumber (Num 100)),
                            o_currency = ''INR'',
                            o_receipt = ''rcpt_'' @ nat_to_string now\<rparr>
            in (case gateway options of
                  Inl message \<Rightarrow> (Server_Error message, [options])
                | Inr order \<Rightarrow> (Order_Created order, [options]))))"

text \<open>
  \<open>POST /api/payment/verify\<close>. The keyed hash is a parameter: \<open>hmac_sha256_hex key message\<close>
  is the hexadecimal digest that
  \<open>crypto.createHmac("sha256", key).update(message).digest("hex")\<close> returns. The key is the
  environment variable \<open>RAZORPAY_KEY_SECRET\<close>; when it is not set, \<open>createHmac\<close> throws and
  the handler answers with status 500.
  \<^verbatim>\<open>
  const { razorpay_order_id, razorpay_payment_id, razorpay_signature } = req.body;
  const sign = crypto.createHmac("sha256", process.env.RAZORPAY_KEY_SECRET)
    .update(razorpay_order_id + "|" + razorpay_payment_id).digest("hex");
  if (sign !== razorpay_signature)
    return res.status(400).json({ success: false, message: "Invalid signature" });
  res.json({ success: true });
  \<close>
\<close>

definition signed_message :: "jsval \<Rightarrow> jsval \<Rightarrow> string" where
  "signed_message razorpay_order_id razorpay_payment_id =
     js_to_string (js_add (js_add razorpay_order_id (JString ''|'')) razorpay_payment_id)"

definition payment_verify ::
  "(string \<Rightarrow> string \<Rightarrow> string) \<Rightarrow> string option \<Rightarrow> json_object \<Rightarrow> response" where
  "payment_verify hmac_sha256_hex secret body =
     (let razorpay_order_id = js_get body ''razorpay_order_id'';
          razorpay_payment_id = js_get body ''razorpay_payment_id'';
          razorpay_signature = js_get body ''razorpay_signature''
      in case secret of
           None \<Rightarrow> Server_Error ''The key argument must be of type string''
         | Some key \<Rightarrow>
             (let sign = hmac_sha256_hex key (signed_message razorpay_order_id razorpay_payment_id)
              in if JString sign \<noteq> razorpay_signature then Bad_Request ''Invalid signature''
                 else Signature_Ok))"

section \<open>Stating the ledger's properties\<close>

text \<open>
  The sums the ledger is to keep, added up as JavaScript adds them from 0, and the
  invariant of the specification: a wallet holds its array of transactions, and its two
  totals are the sums over that array.
\<close>

definition sum_points :: "transaction list \<Rightarrow> number" where
  "sum_points ts = foldl num_add (Num 0) (map tx_points ts)"

definition sum_rupees :: "transaction list \<Rightarrow> jsval" where
  "sum_rupees ts = foldl js_add (JNumber (Num 0)) (map tx_rupees ts)"

definition ledger_consistent :: "wallet \<Rightarrow> bool" where
  "ledger_consistent w \<longleftrightarrow>
     transactions w \<noteq> None \<and> totalPoints w = JNumber (sum_points (entries w)) \<and>
     totalRupees w = sum_rupees (entries w)"

text \<open>
  A schema under which the route \<open>/api/wallet/add\<close> of the second server file could keep
  its ledger declares the paths the route writes. \<open>walletSchema\<close> is not one.
\<close>

definition aggregate_schema :: "schema \<Rightarrow> bool" where
  "aggregate_schema sch \<longleftrightarrow>
     declares sch ''userId'' \<and> declares sch ''totalPoints'' \<and> declares sch ''totalRupees'' \<and>
     declares sch ''transactions''"

definition rupees_numeric :: "json_object \<Rightarrow> bool" where
  "rupees_numeric body \<longleftrightarrow>
     js_get body ''rupees'' = JUndefined \<or> (\<exists>r. js_get body ''rupees'' = JNumber r)"

text \<open>A sequence of requests to \<open>/api/wallet/add\<close>, each with the time it arrives at.\<close>

fun wallet_adds :: "schema \<Rightarrow> (nat \<times> json_object) list \<Rightarrow> collection \<Rightarrow> collection" where
  "wallet_adds sch [] coll = coll"
| "wallet_adds sch ((now, body) # requests) coll =
     wallet_adds sch requests (snd (wallet_add sch now body coll))"

text \<open>
  Stand-ins for the two parameters of the order route, to run it on concrete requests: a
  gateway that creates every order it is sent, and a string conversion that knows no
  number.
\<close>

definition stub_gateway :: "order_options \<Rightarrow> string + json_object" where
  "stub_gateway options = Inr [(''id'', JString ''order_1'')]"

definition stub_parse :: "string \<Rightarrow> number" where
  "stub_parse s = NaN"

section \<open>Helper lemmas\<close>

lemma nat_to_string_small: "n < 10 \<Longrightarrow> nat_to_string n = [digit_char n]"
  by (simp add: nat_to_string.simps)

lemma js_get_Cons: "js_get ((k, v) # obj) k' = (if k = k' then v else js_get obj k')"
  by (simp add: js_get_def)

lemma typeof_number_iff: "js_typeof v = ''number'' \<longleftrightarrow> (\<exists>p. v = JNumber p)"
  by (cases v) simp_all

lemma findOne_None_iff:
  "findOne sch coll userId = None \<longleftrightarrow> (\<forall>w \<in> set coll. w_userId w \<noteq> cast_String userId)"
proof -
  have "set coll = snd ` set (enumerate 0 coll)"
    by (metis list.set_map map_snd_enumerate)
  then show ?thesis
    by (auto simp: findOne_def find_None_iff)
qed

lemma findOne_SomeD:
  assumes "findOne sch coll userId = Some (i, w)"
  shows "i < length coll" and "w = strict sch (coll ! i)"
    and "w_userId (coll ! i) = cast_String userId"
  using assms
  by (auto simp: findOne_def find_Some_iff nth_enumerate_eq)

lemma w_userId_strict_walletSchema: "w_userId (strict walletSchema w) = w_userId w"
  by (simp add: strict_def write_paths_def declares_def walletSchema_def)

lemma find_append_None:
  "List.find P xs = None \<Longrightarrow> List.find P (xs @ ys) = List.find P ys"
  by (induction xs) (auto split: if_splits)

lemma findOne_appended:
  assumes "findOne sch coll userId = None" and "w_userId w = cast_String userId"
  shows "findOne sch (coll @ [w]) userId = Some (length coll, strict sch w)"
proof -
  from assms(1)
  have "List.find (\<lambda>(i, w). w_userId w = cast_String userId) (enumerate 0 coll) = None"
    by (simp add: findOne_def)
  then show ?thesis
    using assms(2) by (simp add: findOne_def enumerate_append_eq find_append_None)
qed

text \<open>The two branches of \<open>applyTransaction\<close>.\<close>

lemma applyTransaction_create:
  assumes "findOne sch coll userId = None"
  shows "applyTransaction sch now userId points rupees note coll =
    (new_Wallet sch now
        (no_wallet_props\<lparr>w_userId := userId, totalPoints := JNumber points,
           totalRupees := rupees,
           transactions := Some [new_transaction points rupees note]\<rparr>),
     coll @ [strict sch (new_Wallet sch now
        (no_wallet_props\<lparr>w_userId := userId, totalPoints := JNumber points,
           totalRupees := rupees,
           transactions := Some [new_transaction points rupees note]\<rparr>))])"
  using assms by (simp add: applyTransaction_def Let_def)

lemma applyTransaction_update:
  assumes "findOne sch coll userId = Some (i, found)"
  shows "applyTransaction sch now userId points rupees note coll =
    (found\<lparr>totalPoints := js_add (totalPoints found) (JNumber points),
            totalRupees := js_add (totalRupees found) rupees,
            transactions := Some (entries found @ [new_transaction points rupees note])\<rparr>,
     coll[i := write_paths sch (coll ! i)
        (found\<lparr>totalPoints := js_add (totalPoints found) (JNumber points),
            totalRupees := js_add (totalRupees found) rupees,
            transactions := Some (entries found @ [new_transaction points rupees note])\<rparr>)])"
  using assms by (simp add: applyTransaction_def Let_def)

lemma entries_write_paths:
  "entries (write_paths sch old w) = (if declares sch ''transactions'' then entries w else entries old)"
  by (simp add: entries_def write_paths_def)

lemma entries_strict: "entries (strict sch w) = (if declares sch ''transactions'' then entries w else [])"
  by (simp add: strict_def entries_write_paths) (simp add: entries_def no_wallet_props_def)

lemma entries_new_Wallet:
  "entries (new_Wallet sch now obj) = (if declares sch ''transactions'' then entries obj else [])"
  by (simp add: new_Wallet_def entries_strict) (simp add: entries_def)

lemma num_add_zero: "num_add (Num 0) p = p"
  by (cases p) simp_all

lemma js_add_numbers: "js_add (JNumber a) (JNumber b) = JNumber (num_add a b)"
  by (simp add: js_add_def)

lemma sum_points_snoc: "sum_points (ts @ [t]) = num_add (sum_points ts) (tx_points t)"
  by (simp add: sum_points_def)

lemma sum_rupees_snoc: "sum_rupees (ts @ [t]) = js_add (sum_rupees ts) (tx_rupees t)"
  by (simp add: sum_rupees_def)

section \<open>Validation and defaults of the routes that credit or debit\<close>

text \<open>
  The route \<open>/api/wallet/add\<close> of \<open>server.js\<close> (lines 175 to 191): what it refuses, what it
  stores, and when \<open>save\<close> fails.
\<close>

lemma cast_Number_truthy:
  assumes "truthy v" and "cast_Number parse v = Some p"
  shows "\<exists>n. p = JNumber (Num n)"
proof (cases v)
  case (JNumber x)
  with assms show ?thesis by (cases x) auto
next
  case (JString s)
  with assms show ?thesis by (auto split: number.splits)
qed (use assms in auto)

lemma wallet_add_events_refused:
  "\<not> (truthy (js_get body ''userId'') \<and> truthy (js_get body ''points'') \<and>
       truthy (js_get body ''rupees'')) \<Longrightarrow>
   wallet_add_events parse now body coll = (Bad_Request ''Missing required fields'', coll)"
  by (auto simp: wallet_add_events_def Let_def)

lemma wallet_add_events_saved:
  assumes "truthy (js_get body ''userId'')" and "truthy (js_get body ''points'')"
    and "truthy (js_get body ''rupees'')"
    and p: "cast_Number parse (js_get body ''points'') = Some p"
    and r: "cast_Number parse (js_get body ''rupees'') = Some r"
  shows "wallet_add_events parse now body coll =
    (Wallet_Saved
       \<lparr>w_userId = cast_String (js_get body ''userId''), w_points = p, w_rupees = r,
         w_date = Some now, totalPoints = JUndefined, totalRupees = JUndefined,
         transactions = None\<rparr>,
     coll @
       [\<lparr>w_userId = cast_String (js_get body ''userId''), w_points = p, w_rupees = r,
          w_date = Some now, totalPoints = JUndefined, totalRupees = JUndefined,
          transactions = None\<rparr>])"
proof -
  from assms(2) p obtain n where "p = JNumber (Num n)"
    by (blast dest: cast_Number_truthy)
  moreover from assms(3) r obtain m where "r = JNumber (Num m)"
    by (blast dest: cast_Number_truthy)
  ultimately have "new_Wallet walletSchema now
       (no_wallet_props\<lparr>w_userId := js_get body ''userId'', w_points := p, w_rupees := r\<rparr>) =
     \<lparr>w_userId = cast_String (js_get body ''userId''), w_points = p, w_rupees = r,
       w_date = Some now, totalPoints = JUndefined, totalRupees = JUndefined,
       transactions = None\<rparr>"
    by (simp add: new_Wallet_def strict_def write_paths_def declares_def walletSchema_def
          no_wallet_props_def default_to_def)
  moreover have "strict walletSchema
     \<lparr>w_userId = cast_String (js_get body ''userId''), w_points = p, w_rupees = r,
       w_date = Some now, totalPoints = JUndefined, totalRupees = JUndefined,
       transactions = None\<rparr> =
     \<lparr>w_userId = cast_String (js_get body ''userId''), w_points = p, w_rupees = r,
       w_date = Some now, totalPoints = JUndefined, totalRupees = JUndefined,
       transactions = None\<rparr>"
    by (simp add: strict_def write_paths_def declares_def walletSchema_def no_wallet_props_def)
  ultimately show ?thesis
    using assms by (simp add: wallet_add_events_def Let_def)
qed

lemma wallet_add_events_cast_error:
  assumes "truthy (js_get body ''userId'')" and "truthy (js_get body ''points'')"
    and "truthy (js_get body ''rupees'')"
    and "cast_Number parse (js_get body ''points'') = None \<or>
         cast_Number parse (js_get body ''rupees'') = None"
  shows "\<exists>message. wallet_add_events parse now body coll = (Server_Error message, coll)"
  using assms by (auto simp: wallet_add_events_def Let_def split: option.splits)

text \<open>
  Claim C4 says that a request is accepted exactly when \<open>userId\<close> is present and \<open>points\<close>
  is numeric, zero included. On the route of \<open>server.js\<close> a request with a user id, zero
  points and fifty rupees is refused with status 400.
\<close>

theorem server_js_refuses_zero_points:
  "wallet_add_events stub_parse 1
     [(''userId'', JString ''u1''), (''points'', JNumber (Num 0)), (''rupees'', JNumber (Num 50))] [] =
   (Bad_Request ''Missing required fields'', [])"
  by code_simp

text \<open>
  Claim C4, amended. The route of the second server file reaches \<open>applyTransaction\<close>
  exactly when \<open>userId\<close> is present (a truthy value: not absent, null, empty, zero or false)
  and \<open>points\<close> is a value of type number, zero included: it then answers with success and
  leaves the collection that \<open>applyTransaction\<close> returns; every other request is answered
  with status 400 and the collection is not changed. The route of \<open>server.js\<close> stores a
  wallet exactly when \<open>userId\<close>, \<open>points\<close> and \<open>rupees\<close> are all truthy and \<open>points\<close> and
  \<open>rupees\<close> cast to numbers: a request in which one of the three is absent, zero or
  otherwise falsy is answered with status 400, one in which \<open>points\<close> or \<open>rupees\<close> does not
  cast to a number with status 500, and in both cases the collection is not changed.
\<close>

theorem wallet_add_validation:
  "(truthy (js_get body ''userId'') \<and> (\<exists>p. js_get body ''points'' = JNumber p) \<longrightarrow>
      (\<exists>message tp tr.
         wallet_add sch now body coll =
           (Wallet_Updated message tp tr,
            snd (applyTransaction sch now (js_get body ''userId'')
                   (the_number (js_get body ''points''))
                   (default_to (JNumber (Num 0)) (js_get body ''rupees''))
                   (default_to (JString []) (js_get body ''note'')) coll)))) \<and>
   (\<not> (truthy (js_get body ''userId'') \<and> (\<exists>p. js_get body ''points'' = JNumber p)) \<longrightarrow>
      wallet_add sch now body coll =
        (Bad_Request ''Missing or invalid fields (userId or points)'', coll)) \<and>
   (\<not> (truthy (js_get body ''userId'') \<and> truthy (js_get body ''points'') \<and>
        truthy (js_get body ''rupees'')) \<longrightarrow>
      wallet_add_events parse now body coll = (Bad_Request ''Missing required fields'', coll)) \<and>
   (truthy (js_get body ''userId'') \<and> truthy (js_get body ''points'') \<and>
    truthy (js_get body ''rupees'') \<and>
    cast_Number parse (js_get body ''points'') = Some p \<and>
    cast_Number parse (js_get body ''rupees'') = Some r \<longrightarrow>
      wallet_add_events parse now body coll =
        (Wallet_Saved
           \<lparr>w_userId = cast_String (js_get body ''userId''), w_points = p, w_rupees = r,
             w_date = Some now, totalPoints = JUndefined, totalRupees = JUndefined,
             transactions = None\<rparr>,
         coll @
           [\<lparr>w_userId = cast_String (js_get body ''userId''), w_points = p, w_rupees = r,
              w_date = Some now, totalPoints = JUndefined, totalRupees = JUndefined,
              transactions = None\<rparr>])) \<and>
   (truthy (js_get body ''userId'') \<and> truthy (js_get body ''points'') \<and>
    truthy (js_get body ''rupees'') \<and>
    (cast_Number parse (js_get body ''points'') = None \<or>
     cast_Number parse (js_get body ''rupees'') = None) \<longrightarrow>
      (\<exists>message. wallet_add_events parse now body coll = (Server_Error message, coll)))"
proof -
  have second_file: "(truthy (js_get body ''userId'') \<and> (\<exists>p. js_get body ''points'' = JNumber p) \<longrightarrow>
      (\<exists>message tp tr.
         wallet_add sch now body coll =
           (Wallet_Updated message tp tr,
            snd (applyTransaction sch now (js_get body ''userId'')
                   (the_number (js_get body ''points''))
                   (default_to (JNumber (Num 0)) (js_get body ''rupees''))
                   (default_to (JString []) (js_get body ''note'')) coll)))) \<and>
   (\<not> (truthy (js_get body ''userId'') \<and> (\<exists>p. js_get body ''points'' = JNumber p)) \<longrightarrow>
      wallet_add sch now body coll =
        (Bad_Request ''Missing or invalid fields (userId or points)'', coll))"
  proof (cases "truthy (js_get body ''userId'') \<and> (\<exists>p. js_get body ''points'' = JNumber p)")
    case True
    then have "js_typeof (js_get body ''points'') = ''number''"
      by (simp add: typeof_number_iff)
    with True show ?thesis
      by (auto simp: wallet_add_def Let_def split: prod.splits)
  next
    case False
    then have "\<not> truthy (js_get body ''userId'') \<or> js_typeof (js_get body ''points'') \<noteq> ''number''"
      by (simp add: typeof_number_iff)
    with False show ?thesis
      by (simp add: wallet_add_def Let_def)
  qed
  show ?thesis
    using second_file wallet_add_events_refused [of body parse now coll]
      wallet_add_events_saved [of body parse p r now coll]
      wallet_add_events_cast_error [of body parse now coll]
    by blast
qed

text \<open>
  On the second server file a request with \<open>points\<close> equal to zero is accepted and one
  without \<open>userId\<close> is refused. On \<open>server.js\<close> five points with fifty rupees are stored,
  five points without rupees are refused, and the points \<open>"five"\<close> fail in \<open>save\<close>.
\<close>

theorem wallet_add_validation_witness:
  "wallet_add walletSchema 1 [(''userId'', JString ''u1''), (''points'', JNumber (Num 0))] [] =
     (Wallet_Updated ''Wallet credited successfully'' JUndefined JUndefined,
      [\<lparr>w_userId = JString ''u1'', w_points = JNumber (Num 0), w_rupees = JNumber (Num 0),
        w_date = Some 1, totalPoints = JUndefined, totalRupees = JUndefined,
        transactions = None\<rparr>]) \<and>
   wallet_add walletSchema 1 [(''points'', JNumber (Num 5))] [] =
     (Bad_Request ''Missing or invalid fields (userId or points)'', []) \<and>
   wallet_add_events stub_parse 1
     [(''userId'', JString ''u1''), (''points'', JNumber (Num 5)), (''rupees'', JNumber (Num 50))] [] =
     (Wallet_Saved
        \<lparr>w_userId = JString ''u1'', w_points = JNumber (Num 5), w_rupees = JNumber (Num 50),
          w_date = Some 1, totalPoints = JUndefined, totalRupees = JUndefined,
          transactions = None\<rparr>,
      [\<lparr>w_userId = JString ''u1'', w_points = JNumber (Num 5), w_rupees = JNumber (Num 50),
         w_date = Some 1, totalPoints = JUndefined, totalRupees = JUndefined,
         transactions = None\<rparr>]) \<and>
   wallet_add_events stub_parse 1
     [(''userId'', JString ''u1''), (''points'', JNumber (Num 5))] [] =
     (Bad_Request ''Missing required fields'', []) \<and>
   fst (wallet_add_events stub_parse 1
     [(''userId'', JString ''u1''), (''points'', JString ''five''), (''rupees'', JNumber (Num 50))] []) =
     Server_Error ''Wallet validation failed''"
proof -
  let ?zero = "[(''userId'', JString ''u1''), (''points'', JNumber (Num 0))]"
  let ?anonymous = "[(''points'', JNumber (Num 5))]"
  let ?event = "[(''userId'', JString ''u1''), (''points'', JNumber (Num 5)), (''rupees'', JNumber (Num 50))]"
  let ?no_rupees = "[(''userId'', JString ''u1''), (''points'', JNumber (Num 5))]"
  let ?words = "[(''userId'', JString ''u1''), (''points'', JString ''five''), (''rupees'', JNumber (Num 50))]"
  have accepted: "truthy (js_get ?zero ''userId'') \<and> (\<exists>p. js_get ?zero ''points'' = JNumber p)"
    by (simp add: js_get_def)
  have rejected: "\<not> (truthy (js_get ?anonymous ''userId'') \<and>
      (\<exists>p. js_get ?anonymous ''points'' = JNumber p))"
    by (simp add: js_get_def)
  have stored: "snd (applyTransaction walletSchema 1 (JString ''u1'') (Num 0) (JNumber (Num 0)) (JString []) []) =
      [\<lparr>w_userId = JString ''u1'', w_points = JNumber (Num 0), w_rupees = JNumber (Num 0),
        w_date = Some 1, totalPoints = JUndefined, totalRupees = JUndefined,
        transactions = None\<rparr>]"
    by code_simp
  have response: "fst (wallet_add walletSchema 1 ?zero []) =
      Wallet_Updated ''Wallet credited successfully'' JUndefined JUndefined"
    by code_simp
  from wallet_add_validation [where body = ?zero and sch = walletSchema and now = 1 and coll = "[]"
      and parse = stub_parse and p = JNull and r = JNull]
    accepted stored response
  have one: "wallet_add walletSchema 1 ?zero [] =
     (Wallet_Updated ''Wallet credited successfully'' JUndefined JUndefined,
      [\<lparr>w_userId = JString ''u1'', w_points = JNumber (Num 0), w_rupees = JNumber (Num 0),
        w_date = Some 1, totalPoints = JUndefined, totalRupees = JUndefined,
        transactions = None\<rparr>])"
    by (auto simp: js_get_def default_to_def)
  from wallet_add_validation [where body = ?anonymous and sch = walletSchema and now = 1 and coll = "[]"
      and parse = stub_parse and p = JNull and r = JNull]
    rejected
  have two: "wallet_add walletSchema 1 ?anonymous [] =
     (Bad_Request ''Missing or invalid fields (userId or points)'', [])"
    by blast
  have event: "truthy (js_get ?event ''userId'') \<and> truthy (js_get ?event ''points'') \<and>
      truthy (js_get ?event ''rupees'') \<and>
      cast_Number stub_parse (js_get ?event ''points'') = Some (JNumber (Num 5)) \<and>
      cast_Number stub_parse (js_get ?event ''rupees'') = Some (JNumber (Num 50))"
      "cast_String (js_get ?event ''userId'') = JString ''u1''"
    by (simp_all add: js_get_def)
  from wallet_add_validation [where body = ?event and parse = stub_parse and now = 1
      and coll = "[]" and p = "JNumber (Num 5)" and r = "JNumber (Num 50)" and sch = walletSchema] event
  have three: "wallet_add_events stub_parse 1 ?event [] =
     (Wallet_Saved
        \<lparr>w_userId = JString ''u1'', w_points = JNumber (Num 5), w_rupees = JNumber (Num 50),
          w_date = Some 1, totalPoints = JUndefined, totalRupees = JUndefined,
          transactions = None\<rparr>,
      [\<lparr>w_userId = JString ''u1'', w_points = JNumber (Num 5), w_rupees = JNumber (Num 50),
         w_date = Some 1, totalPoints = JUndefined, totalRupees = JUndefined,
         transactions = None\<rparr>])"
    by simp
  have no_rupees: "\<not> (truthy (js_get ?no_rupees ''userId'') \<and> truthy (js_get ?no_rupees ''points'') \<and>
      truthy (js_get ?no_rupees ''rupees''))"
    by (simp add: js_get_def)
  from wallet_add_validation [where body = ?no_rupees and parse = stub_parse and now = 1
      and coll = "[]" and sch = walletSchema and p = JNull and r = JNull] no_rupees
  have four: "wallet_add_events stub_parse 1 ?no_rupees [] =
     (Bad_Request ''Missing required fields'', [])"
    by blast
  have five: "fst (wallet_add_events stub_parse 1 ?words []) = Server_Error ''Wallet validation failed''"
    by code_simp
  from one two three four five show ?thesis
    by blast
qed

text \<open>
  Claim C5 says that a request without \<open>rupees\<close> is accepted and processed as with
  \<open>rupees\<close> equal to 0. On the route of \<open>server.js\<close> a request with a user id and five
  points, and no rupees, is refused with status 400.
\<close>

theorem server_js_refuses_absent_rupees:
  "wallet_add_events stub_parse 1
     [(''userId'', JString ''u1''), (''points'', JNumber (Num 5))] [] =
   (Bad_Request ''Missing required fields'', [])"
  by code_simp

text \<open>
  Claim C5, amended. On the route of the second server file a request without \<open>rupees\<close> is
  processed exactly as the same request with \<open>rupees\<close> equal to 0, and a request without
  \<open>note\<close> exactly as the same request with the empty note: with a present \<open>userId\<close> and
  numeric \<open>points\<close> it is accepted, and \<open>applyTransaction\<close> is called with the rupees 0,
  respectively with the empty note. The route of \<open>server.js\<close> has no defaults: it refuses a
  request without \<open>rupees\<close> with status 400 and leaves the collection as it is, and it
  does not read \<open>note\<close>.
\<close>

theorem absent_rupees_and_note_defaults:
  "(js_get body ''rupees'' = JUndefined \<longrightarrow>
      wallet_add sch now body coll =
        wallet_add sch now ((''rupees'', JNumber (Num 0)) # body) coll) \<and>
   (js_get body ''note'' = JUndefined \<longrightarrow>
      wallet_add sch now body coll = wallet_add sch now ((''note'', JString []) # body) coll) \<and>
   (js_get body ''rupees'' = JUndefined \<and> truthy (js_get body ''userId'') \<and>
    js_typeof (js_get body ''points'') = ''number'' \<longrightarrow>
      (\<exists>message tp tr coll'.
         wallet_add sch now body coll = (Wallet_Updated message tp tr, coll'))) \<and>
   (js_get body ''rupees'' = JUndefined \<and> truthy (js_get body ''userId'') \<and>
    js_typeof (js_get body ''points'') = ''number'' \<longrightarrow>
      (\<exists>message.
         wallet_add sch now body coll =
           (Wallet_Updated message
              (totalPoints (fst (applyTransaction sch now (js_get body ''userId'')
                 (the_number (js_get body ''points'')) (JNumber (Num 0))
                 (default_to (JString []) (js_get body ''note'')) coll)))
              (totalRupees (fst (applyTransaction sch now (js_get body ''userId'')
                 (the_number (js_get body ''points'')) (JNumber (Num 0))
                 (default_to (JString []) (js_get body ''note'')) coll))),
            snd (applyTransaction sch now (js_get body ''userId'')
                 (the_number (js_get body ''points'')) (JNumber (Num 0))
                 (default_to (JString []) (js_get body ''note'')) coll)))) \<and>
   (js_get body ''note'' = JUndefined \<and> truthy (js_get body ''userId'') \<and>
    js_typeof (js_get body ''points'') = ''number'' \<longrightarrow>
      (\<exists>message.
         wallet_add sch now body coll =
           (Wallet_Updated message
              (totalPoints (fst (applyTransaction sch now (js_get body ''userId'')
                 (the_number (js_get body ''points''))
                 (default_to (JNumber (Num 0)) (js_get body ''rupees'')) (JString []) coll)))
              (totalRupees (fst (applyTransaction sch now (js_get body ''userId'')
                 (the_number (js_get body ''points''))
                 (default_to (JNumber (Num 0)) (js_get body ''rupees'')) (JString []) coll))),
            snd (applyTransaction sch now (js_get body ''userId'')
                 (the_number (js_get body ''points''))
                 (default_to (JNumber (Num 0)) (js_get body ''rupees'')) (JString []) coll)))) \<and>
   (js_get body ''rupees'' = JUndefined \<longrightarrow>
      wallet_add_events parse now body coll = (Bad_Request ''Missing required fields'', coll)) \<and>
   wallet_add_events parse now ((''note'', v) # body) coll = wallet_add_events parse now body coll"
proof (intro conjI impI)
  assume absent: "js_get body ''rupees'' = JUndefined"
  let ?body = "(''rupees'', JNumber (Num 0)) # body"
  have "js_get ?body ''userId'' = js_get body ''userId''"
      "js_get ?body ''points'' = js_get body ''points''"
      "js_get ?body ''note'' = js_get body ''note''"
    by (simp_all add: js_get_Cons)
  moreover from absent
  have "default_to (JNumber (Num 0)) (js_get ?body ''rupees'') =
        default_to (JNumber (Num 0)) (js_get body ''rupees'')"
    by (simp add: js_get_Cons default_to_def)
  ultimately show "wallet_add sch now body coll = wallet_add sch now ?body coll"
    by (simp add: wallet_add_def)
next
  assume absent: "js_get body ''note'' = JUndefined"
  let ?body = "(''note'', JString []) # body"
  have "js_get ?body ''userId'' = js_get body ''userId''"
      "js_get ?body ''points'' = js_get body ''points''"
      "js_get ?body ''rupees'' = js_get body ''rupees''"
    by (simp_all add: js_get_Cons)
  moreover from absent
  have "default_to (JString []) (js_get ?body ''note'') =
        default_to (JString []) (js_get body ''note'')"
    by (simp add: js_get_Cons default_to_def)
  ultimately show "wallet_add sch now body coll = wallet_add sch now ?body coll"
    by (simp add: wallet_add_def)
next
  assume "js_get body ''rupees'' = JUndefined \<and> truthy (js_get body ''userId'') \<and>
    js_typeof (js_get body ''points'') = ''number''"
  then show "\<exists>message tp tr coll'.
         wallet_add sch now body coll = (Wallet_Updated message tp tr, coll')"
    by (simp add: wallet_add_def Let_def split: prod.splits)
next
  assume "js_get body ''rupees'' = JUndefined \<and> truthy (js_get body ''userId'') \<and>
    js_typeof (js_get body ''points'') = ''number''"
  then show "\<exists>message.
         wallet_add sch now body coll =
           (Wallet_Updated message
              (totalPoints (fst (applyTransaction sch now (js_get body ''userId'')
                 (the_number (js_get body ''points'')) (JNumber (Num 0))
                 (default_to (JString []) (js_get body ''note'')) coll)))
              (totalRupees (fst (applyTransaction sch now (js_get body ''userId'')
                 (the_number (js_get body ''points'')) (JNumber (Num 0))
                 (default_to (JString []) (js_get body ''note'')) coll))),
            snd (applyTransaction sch now (js_get body ''userId'')
                 (the_number (js_get body ''points'')) (JNumber (Num 0))
                 (default_to (JString []) (js_get body ''note'')) coll))"
    by (simp add: wallet_add_def Let_def default_to_def split: prod.splits)
next
  assume "js_get body ''note'' = JUndefined \<and> truthy (js_get body ''userId'') \<and>
    js_typeof (js_get body ''points'') = ''number''"
  then show "\<exists>message.
         wallet_add sch now body coll =
           (Wallet_Updated message
              (totalPoints (fst (applyTransaction sch now (js_get body ''userId'')
                 (the_number (js_get body ''points''))
                 (default_to (JNumber (Num 0)) (js_get body ''rupees'')) (JString []) coll)))
              (totalRupees (fst (applyTransaction sch now (js_get body ''userId'')
                 (the_number (js_get body ''points''))
                 (default_to (JNumber (Num 0)) (js_get body ''rupees'')) (JString []) coll))),
            snd (applyTransaction sch now (js_get body ''userId'')
                 (the_number (js_get body ''points''))
                 (default_to (JNumber (Num 0)) (js_get body ''rupees'')) (JString []) coll))"
    by (simp add: wallet_add_def Let_def default_to_def split: prod.splits)
next
  assume "js_get body ''rupees'' = JUndefined"
  then show "wallet_add_events parse now body coll = (Bad_Request ''Missing required fields'', coll)"
    by (simp add: wallet_add_events_refused)
next
  have "js_get ((''note'', v) # body) ''userId'' = js_get body ''userId''"
      "js_get ((''note'', v) # body) ''points'' = js_get body ''points''"
      "js_get ((''note'', v) # body) ''rupees'' = js_get body ''rupees''"
    by (simp_all add: js_get_Cons)
  then show "wallet_add_events parse now ((''note'', v) # body) coll =
      wallet_add_events parse now body coll"
    by (simp add: wallet_add_events_def)
qed

text \<open>
  A request with a user id and five points only. Under \<open>walletSchema\<close> it gives what the
  requests with \<open>rupees\<close> 0 and with the empty note give. Under a schema that also declares
  the totals and the array, the defaults are what is stored: the total of rupees 0, and an
  entry with the rupees 0 and the empty note. On \<open>server.js\<close> a request without \<open>rupees\<close>
  is refused, with a note or without.
\<close>

theorem absent_rupees_and_note_defaults_witness:
  "wallet_add walletSchema 1 [(''userId'', JString ''u1''), (''points'', JNumber (Num 5))] [] =
   wallet_add walletSchema 1
     [(''rupees'', JNumber (Num 0)), (''userId'', JString ''u1''), (''points'', JNumber (Num 5))] [] \<and>
   wallet_add walletSchema 1 [(''userId'', JString ''u1''), (''points'', JNumber (Num 5))] [] =
   wallet_add walletSchema 1
     [(''note'', JString []), (''userId'', JString ''u1''), (''points'', JNumber (Num 5))] [] \<and>
   fst (wallet_add walletSchema 1 [(''userId'', JString ''u1''), (''points'', JNumber (Num 5))] []) =
     Wallet_Updated ''Wallet credited successfully'' JUndefined JUndefined \<and>
   wallet_add [''userId'', ''points'', ''rupees'', ''date'', ''totalPoints'', ''totalRupees'', ''transactions'']
     1 [(''userId'', JString ''u1''), (''points'', JNumber (Num 5))] [] =
     (Wallet_Updated ''Wallet credited successfully'' (JNumber (Num 5)) (JNumber (Num 0)),
      [\<lparr>w_userId = JString ''u1'', w_points = JNumber (Num 0), w_rupees = JNumber (Num 0),
         w_date = Some 1, totalPoints = JNumber (Num 5), totalRupees = JNumber (Num 0),
         transactions = Some [\<lparr>tx_points = Num 5, tx_rupees = JNumber (Num 0),
                                tx_type = ''credit'', tx_note = JString []\<rparr>]\<rparr>]) \<and>
   wallet_add_events stub_parse 1
     [(''userId'', JString ''u1''), (''points'', JNumber (Num 5)), (''note'', JString ''gift'')] [] =
     (Bad_Request ''Missing required fields'', [])"
proof -
  let ?body = "[(''userId'', JString ''u1''), (''points'', JNumber (Num 5))]"
  let ?aggregate = "[''userId'', ''points'', ''rupees'', ''date'', ''totalPoints'', ''totalRupees'',
      ''transactions'']"
  have absent: "js_get ?body ''rupees'' = JUndefined" "js_get ?body ''note'' = JUndefined"
      "truthy (js_get ?body ''userId'')" "js_typeof (js_get ?body ''points'') = ''number''"
    by (simp_all add: js_get_def)
  have response: "fst (wallet_add walletSchema 1 ?body []) =
     Wallet_Updated ''Wallet credited successfully'' JUndefined JUndefined"
    by code_simp
  from absent_rupees_and_note_defaults
      [where body = ?body and sch = walletSchema and now = 1 and coll = "[]"
        and parse = stub_parse and v = JNull]
    absent response
  have source: "wallet_add walletSchema 1 ?body [] =
      wallet_add walletSchema 1 ((''rupees'', JNumber (Num 0)) # ?body) [] \<and>
    wallet_add walletSchema 1 ?body [] =
      wallet_add walletSchema 1 ((''note'', JString []) # ?body) []"
    by blast
  have applied: "applyTransaction ?aggregate 1 (JString ''u1'') (Num 5) (JNumber (Num 0)) (JString []) [] =
      (\<lparr>w_userId = JString ''u1'', w_points = JNumber (Num 0), w_rupees = JNumber (Num 0),
         w_date = Some 1, totalPoints = JNumber (Num 5), totalRupees = JNumber (Num 0),
         transactions = Some [\<lparr>tx_points = Num 5, tx_rupees = JNumber (Num 0),
                                tx_type = ''credit'', tx_note = JString []\<rparr>]\<rparr>,
       [\<lparr>w_userId = JString ''u1'', w_points = JNumber (Num 0), w_rupees = JNumber (Num 0),
         w_date = Some 1, totalPoints = JNumber (Num 5), totalRupees = JNumber (Num 0),
         transactions = Some [\<lparr>tx_points = Num 5, tx_rupees = JNumber (Num 0),
                                tx_type = ''credit'', tx_note = JString []\<rparr>]\<rparr>])"
    by code_simp
  have message: "fst (wallet_add ?aggregate 1 ?body []) =
      Wallet_Updated ''Wallet credited successfully'' (JNumber (Num 5)) (JNumber (Num 0))"
    by code_simp
  have fields: "js_get ?body ''userId'' = JString ''u1''"
      "the_number (js_get ?body ''points'') = Num 5"
      "default_to (JString []) (js_get ?body ''note'') = JString []"
    by (simp_all add: js_get_def default_to_def)
  from absent_rupees_and_note_defaults
      [where body = ?body and sch = ?aggregate and now = 1 and coll = "[]"
        and parse = stub_parse and v = JNull]
    absent
  obtain m where "wallet_add ?aggregate 1 ?body [] =
           (Wallet_Updated m
              (totalPoints (fst (applyTransaction ?aggregate 1 (JString ''u1'') (Num 5)
                 (JNumber (Num 0)) (JString []) [])))
              (totalRupees (fst (applyTransaction ?aggregate 1 (JString ''u1'') (Num 5)
                 (JNumber (Num 0)) (JString []) []))),
            snd (applyTransaction ?aggregate 1 (JString ''u1'') (Num 5)
                 (JNumber (Num 0)) (JString []) []))"
    unfolding fields by blast
  with applied message
  have aggregate: "wallet_add ?aggregate 1 ?body [] =
     (Wallet_Updated ''Wallet credited successfully'' (JNumber (Num 5)) (JNumber (Num 0)),
      [\<lparr>w_userId = JString ''u1'', w_points = JNumber (Num 0), w_rupees = JNumber (Num 0),
         w_date = Some 1, totalPoints = JNumber (Num 5), totalRupees = JNumber (Num 0),
         transactions = Some [\<lparr>tx_points = Num 5, tx_rupees = JNumber (Num 0),
                                tx_type = ''credit'', tx_note = JString []\<rparr>]\<rparr>])"
    by simp
  let ?gift = "[(''userId'', JString ''u1''), (''points'', JNumber (Num 5)), (''note'', JString ''gift'')]"
  have "js_get ?gift ''rupees'' = JUndefined"
    by (simp add: js_get_def)
  with absent_rupees_and_note_defaults
      [where body = ?gift and sch = walletSchema and now = 1 and coll = "[]"
        and parse = stub_parse and v = JNull]
  have events: "wallet_add_events stub_parse 1 ?gift [] = (Bad_Request ''Missing required fields'', [])"
    by blast
  from source response aggregate events show ?thesis
    by blast
qed

section \<open>The balance of a user without a wallet\<close>

text \<open>
  Claim C6. For a user id that no stored wallet bears, the balance route answers with
  success and the totals 0 and 0, in both server files: the second finds no document, the
  first sums over no document.
\<close>

theorem unknown_user_balance_zero:
  assumes "\<forall>w \<in> set coll. w_userId w \<noteq> JString userId"
  shows "wallet_balance sch coll userId = Balance (JNumber (Num 0)) (JNumber (Num 0)) \<and>
         wallet_balance_events coll userId = Balance (JNumber (Num 0)) (JNumber (Num 0))"
proof
  from assms have "findOne sch coll (JString userId) = None"
    by (simp add: findOne_None_iff)
  then show "wallet_balance sch coll userId = Balance (JNumber (Num 0)) (JNumber (Num 0))"
    by (simp add: wallet_balance_def)
  from assms have "filter (\<lambda>w. w_userId w = JString userId) (map (strict walletSchema) coll) = []"
    by (simp add: filter_empty_conv w_userId_strict_walletSchema)
  then show "wallet_balance_events coll userId = Balance (JNumber (Num 0)) (JNumber (Num 0))"
    by (simp add: wallet_balance_events_def find_sorted_def)
qed

text \<open>
  A collection with the wallet of \<open>u1\<close> only: the user \<open>nonexistent\<close> reads zeros, while
  \<open>server.js\<close> reads the stored values for \<open>u1\<close>.
\<close>

theorem unknown_user_balance_zero_witness:
  "wallet_balance walletSchema
     [\<lparr>w_userId = JString ''u1'', w_points = JNumber (Num 7), w_rupees = JNumber (Num 3),
       w_date = Some 1, totalPoints = JUndefined, totalRupees = JUndefined,
       transactions = None\<rparr>] ''nonexistent'' = Balance (JNumber (Num 0)) (JNumber (Num 0)) \<and>
   wallet_balance_events
     [\<lparr>w_userId = JString ''u1'', w_points = JNumber (Num 7), w_rupees = JNumber (Num 3),
       w_date = Some 1, totalPoints = JUndefined, totalRupees = JUndefined,
       transactions = None\<rparr>] ''nonexistent'' = Balance (JNumber (Num 0)) (JNumber (Num 0)) \<and>
   wallet_balance_events
     [\<lparr>w_userId = JString ''u1'', w_points = JNumber (Num 7), w_rupees = JNumber (Num 3),
       w_date = Some 1, totalPoints = JUndefined, totalRupees = JUndefined,
       transactions = None\<rparr>] ''u1'' = Balance (JNumber (Num 7)) (JNumber (Num 3))"
proof -
  have known: "wallet_balance_events
     [\<lparr>w_userId = JString ''u1'', w_points = JNumber (Num 7), w_rupees = JNumber (Num 3),
       w_date = Some 1, totalPoints = JUndefined, totalRupees = JUndefined,
       transactions = None\<rparr>] ''u1'' = Balance (JNumber (Num 7)) (JNumber (Num 3))"
    by code_simp
  show ?thesis
    using known
      unknown_user_balance_zero [of "[\<lparr>w_userId = JString ''u1'', w_points = JNumber (Num 7),
        w_rupees = JNumber (Num 3), w_date = Some 1, totalPoints = JUndefined,
        totalRupees = JUndefined, transactions = None\<rparr>]" "''nonexistent''" walletSchema]
    by simp
qed

section \<open>Properties of the payment routes\<close>

text \<open>
  Claim C2. With the secret set, the verification route answers with success exactly when
  the signature of the request is the string that the keyed hash gives for the secret and
  the message \<open>razorpay_order_id + "|" + razorpay_payment_id\<close>; every other signature,
  an absent one included, is answered with status 400, "Invalid signature". The timing of
  the comparison is not part of the model.
\<close>

theorem verify_iff_signature_matches:
  "(payment_verify hmac_sha256_hex (Some sharedSecret) body = Signature_Ok \<longleftrightarrow>
      js_get body ''razorpay_signature'' =
        JString (hmac_sha256_hex sharedSecret
          (js_to_string (js_get body ''razorpay_order_id'') @ ''|'' @
           js_to_string (js_get body ''razorpay_payment_id'')))) \<and>
   (payment_verify hmac_sha256_hex (Some sharedSecret) body \<noteq> Signature_Ok \<longleftrightarrow>
      payment_verify hmac_sha256_hex (Some sharedSecret) body = Bad_Request ''Invalid signature'')"
proof -
  let ?message = "js_to_string (js_get body ''razorpay_order_id'') @ ''|'' @
           js_to_string (js_get body ''razorpay_payment_id'')"
  have message: "signed_message (js_get body ''razorpay_order_id'')
      (js_get body ''razorpay_payment_id'') = ?message"
    by (simp add: signed_message_def js_add_def)
  have "payment_verify hmac_sha256_hex (Some sharedSecret) body =
      (if JString (hmac_sha256_hex sharedSecret ?message) \<noteq> js_get body ''razorpay_signature''
       then Bad_Request ''Invalid signature'' else Signature_Ok)"
    by (simp add: payment_verify_def Let_def message)
  then show ?thesis
    by auto
qed

text \<open>
  With concatenation standing in for the keyed hash: the matching signature for
  \<open>order_1\<close> and \<open>pay_1\<close> under the secret \<open>s3cret\<close> is accepted, and one that differs
  in its last character is refused.
\<close>

theorem verify_iff_signature_matches_witness:
  "payment_verify (\<lambda>key message. key @ message) (Some ''s3cret'')
     [(''razorpay_order_id'', JString ''order_1''), (''razorpay_payment_id'', JString ''pay_1''),
      (''razorpay_signature'', JString ''s3cretorder_1|pay_1'')] = Signature_Ok \<and>
   payment_verify (\<lambda>key message. key @ message) (Some ''s3cret'')
     [(''razorpay_order_id'', JString ''order_1''), (''razorpay_payment_id'', JString ''pay_1''),
      (''razorpay_signature'', JString ''s3cretorder_1|pay_2'')] = Bad_Request ''Invalid signature''"
  using verify_iff_signature_matches [of "\<lambda>key message. key @ message" "''s3cret''"
      "[(''razorpay_order_id'', JString ''order_1''), (''razorpay_payment_id'', JString ''pay_1''),
        (''razorpay_signature'', JString ''s3cretorder_1|pay_1'')]"]
    verify_iff_signature_matches [of "\<lambda>key message. key @ message" "''s3cret''"
      "[(''razorpay_order_id'', JString ''order_1''), (''razorpay_payment_id'', JString ''pay_1''),
        (''razorpay_signature'', JString ''s3cretorder_1|pay_2'')]"]
  by (auto simp: js_get_def)

text \<open>
  Claim C7 says that an order with a non-positive amount is never submitted to the
  gateway. The route checks only that \<open>amount\<close> is truthy: the amount \<open>-5\<close> is submitted
  as \<open>-500\<close>, and the route answers with the order the gateway created.
\<close>

theorem negative_amount_reaches_gateway:
  "payment_order stub_parse stub_gateway 7 [(''amount'', JNumber (Num (- 5)))] =
     (Order_Created [(''id'', JString ''order_1'')],
      [\<lparr>o_amount = Num (- 500), o_currency = ''INR'', o_receipt = ''rcpt_7''\<rparr>])"
  by code_simp

text \<open>
  Claim C7, amended. A request whose amount is absent, zero or otherwise falsy is
  answered with status 400, "Amount is required", and nothing is submitted. Every other
  amount, a negative one included, is submitted to the gateway once, multiplied by 100 and
  in the currency INR, and the answer is the gateway's: the order it created, or status
  500 with the message of its error.
\<close>

theorem order_submitted_unless_amount_falsy:
  "(\<not> truthy (js_get body ''amount'') \<longrightarrow>
      payment_order parse gateway now body = (Bad_Request ''Amount is required'', [])) \<and>
   (js_get body ''amount'' = JNumber (Num n) \<longrightarrow>
      snd (payment_order parse gateway now body) =
        (if n = 0 then []
         else [\<lparr>o_amount = Num (n * 100), o_currency = ''INR'',
                 o_receipt = ''rcpt_'' @ nat_to_string now\<rparr>])) \<and>
   (truthy (js_get body ''amount'') \<longrightarrow>
      (\<exists>options. snd (payment_order parse gateway now body) = [options] \<and>
         o_amount options = js_mul parse (js_get body ''amount'') (JNumber (Num 100)) \<and>
         o_currency options = ''INR'' \<and> o_receipt options = ''rcpt_'' @ nat_to_string now \<and>
         fst (payment_order parse gateway now body) =
           (case gateway options of Inl message \<Rightarrow> Server_Error message
                                  | Inr order \<Rightarrow> Order_Created order)))"
proof -
  let ?options = "\<lparr>o_amount = js_mul parse (js_get body ''amount'') (JNumber (Num 100)),
      o_currency = ''INR'', o_receipt = ''rcpt_'' @ nat_to_string now\<rparr>"
  have refused: "payment_order parse gateway now body = (Bad_Request ''Amount is required'', [])"
    if "\<not> truthy (js_get body ''amount'')"
    using that by (simp add: payment_order_def)
  have submitted: "payment_order parse gateway now body =
      ((case gateway ?options of Inl message \<Rightarrow> Server_Error message
                                | Inr order \<Rightarrow> Order_Created order), [?options])"
    if "truthy (js_get body ''amount'')"
    using that by (simp add: payment_order_def Let_def split: sum.splits)
  have numeric: "snd (payment_order parse gateway now body) =
        (if n = 0 then []
         else [\<lparr>o_amount = Num (n * 100), o_currency = ''INR'',
                 o_receipt = ''rcpt_'' @ nat_to_string now\<rparr>])"
    if amount: "js_get body ''amount'' = JNumber (Num n)"
  proof (cases "n = 0")
    case True
    with amount refused show ?thesis by simp
  next
    case False
    with amount submitted show ?thesis by (simp add: js_mul_def)
  qed
  from refused submitted numeric show ?thesis
    by auto
qed

theorem order_submitted_unless_amount_falsy_witness:
  "payment_order stub_parse stub_gateway 7 [(''amount'', JNumber (Num 0))] =
     (Bad_Request ''Amount is required'', []) \<and>
   snd (payment_order stub_parse stub_gateway 7 [(''amount'', JNumber (Num 20))]) =
     [\<lparr>o_amount = Num 2000, o_currency = ''INR'', o_receipt = ''rcpt_7''\<rparr>]"
proof -
  have receipt: "nat_to_string 7 = ''7''"
    by code_simp
  show ?thesis
    using order_submitted_unless_amount_falsy [where body = "[(''amount'', JNumber (Num 0))]"
        and parse = stub_parse and gateway = stub_gateway and now = 7 and n = 0]
      order_submitted_unless_amount_falsy [where body = "[(''amount'', JNumber (Num 20))]"
        and parse = stub_parse and gateway = stub_gateway and now = 7 and n = 20]
    by (simp add: js_get_def receipt)
qed

section \<open>The classification of a transaction\<close>

lemma applyTransaction_stored_entries:
  assumes run: "applyTransaction sch now userId points rupees note coll = (wallet, coll')"
    and w': "w' \<in> set coll'" and t: "t \<in> set (entries w')"
  shows "(\<exists>w \<in> set coll. t \<in> set (entries w)) \<or> t = new_transaction points rupees note"
proof (cases "findOne sch coll userId")
  case None
  from run have coll': "coll' = coll @ [strict sch wallet]"
    and wallet: "wallet = new_Wallet sch now
        (no_wallet_props\<lparr>w_userId := userId, totalPoints := JNumber points,
           totalRupees := rupees,
           transactions := Some [new_transaction points rupees note]\<rparr>)"
    unfolding applyTransaction_create [OF None] by auto
  have "set (entries (strict sch wallet)) \<subseteq> {new_transaction points rupees note}"
    unfolding wallet by (simp add: entries_strict entries_new_Wallet) (auto simp: entries_def)
  with w' t coll' show ?thesis
    by auto
next
  case (Some found)
  obtain i w0 where "found = (i, w0)"
    by (cases found)
  with Some have find: "findOne sch coll userId = Some (i, w0)"
    by simp
  then have i: "i < length coll" and w0: "w0 = strict sch (coll ! i)"
    by (auto dest: findOne_SomeD)
  from run have coll': "coll' = coll[i := write_paths sch (coll ! i) wallet]"
    and wallet: "entries wallet = entries w0 @ [new_transaction points rupees note]"
    unfolding applyTransaction_update [OF find] by (auto simp: entries_def)
  from w' coll' have "w' \<in> set coll \<or> w' = write_paths sch (coll ! i) wallet"
    using set_update_subset_insert [of coll i] by auto
  then show ?thesis
  proof
    assume "w' \<in> set coll"
    with t show ?thesis by blast
  next
    assume eq: "w' = write_paths sch (coll ! i) wallet"
    have "coll ! i \<in> set coll"
      using i by simp
    moreover from t have "t \<in> set (entries (coll ! i)) \<or> t = new_transaction points rupees note"
      unfolding eq entries_write_paths wallet w0 entries_strict
      by (auto split: if_splits)
    ultimately show ?thesis by blast
  qed
qed

lemma transactions_new_Wallet:
  "transactions (new_Wallet sch now obj) =
     (if declares sch ''transactions'' then transactions obj else None)"
  by (simp add: new_Wallet_def strict_def write_paths_def no_wallet_props_def)

lemma applyTransaction_appends:
  assumes run: "applyTransaction sch now userId points rupees note coll = (wallet, coll')"
    and ts: "transactions wallet = Some ts"
  shows "ts \<noteq> [] \<and> last ts = new_transaction points rupees note"
proof (cases "findOne sch coll userId")
  case None
  from run have "wallet = new_Wallet sch now
        (no_wallet_props\<lparr>w_userId := userId, totalPoints := JNumber points,
           totalRupees := rupees,
           transactions := Some [new_transaction points rupees note]\<rparr>)"
    unfolding applyTransaction_create [OF None] by auto
  with ts have "ts = [new_transaction points rupees note]"
    by (simp add: transactions_new_Wallet split: if_splits)
  then show ?thesis by simp
next
  case (Some found)
  obtain i w0 where "found = (i, w0)"
    by (cases found)
  with Some have find: "findOne sch coll userId = Some (i, w0)"
    by simp
  from run ts have "ts = entries w0 @ [new_transaction points rupees note]"
    unfolding applyTransaction_update [OF find] by auto
  then show ?thesis by simp
qed

text \<open>
  Claim C8. The transaction that \<open>applyTransaction\<close> appends is the last entry of the
  wallet it returns, it is the only entry the stored wallets gain, and its type is
  \<open>credit\<close> exactly when its points are at least 0 and \<open>debit\<close> otherwise, whatever the
  rupees and the note are.
\<close>

theorem appended_transaction_classified_by_points:
  assumes "applyTransaction sch now userId points rupees note coll = (wallet, coll')"
  shows "(\<forall>ts. transactions wallet = Some ts \<longrightarrow>
            ts \<noteq> [] \<and> last ts = new_transaction points rupees note) \<and>
         (\<forall>w' \<in> set coll'. \<forall>t \<in> set (entries w').
            (\<exists>w \<in> set coll. t \<in> set (entries w)) \<or> t = new_transaction points rupees note) \<and>
         tx_points (new_transaction points rupees note) = points \<and>
         (tx_type (new_transaction points rupees note) = ''credit'' \<longleftrightarrow> num_ge0 points) \<and>
         (tx_type (new_transaction points rupees note) = ''debit'' \<longleftrightarrow> \<not> num_ge0 points) \<and>
         tx_type (new_transaction points rupees note) = tx_type (new_transaction points rupees' note')"
proof -
  have "\<forall>ts. transactions wallet = Some ts \<longrightarrow>
            ts \<noteq> [] \<and> last ts = new_transaction points rupees note"
    using applyTransaction_appends [OF assms] by blast
  moreover have "\<forall>w' \<in> set coll'. \<forall>t \<in> set (entries w').
            (\<exists>w \<in> set coll. t \<in> set (entries w)) \<or> t = new_transaction points rupees note"
    using applyTransaction_stored_entries [OF assms] by blast
  moreover have "tx_points (new_transaction points rupees note) = points"
      "tx_type (new_transaction points rupees note) = ''credit'' \<longleftrightarrow> num_ge0 points"
      "tx_type (new_transaction points rupees note) = ''debit'' \<longleftrightarrow> \<not> num_ge0 points"
      "tx_type (new_transaction points rupees note) = tx_type (new_transaction points rupees' note')"
    by (simp_all add: new_transaction_def)
  ultimately show ?thesis by blast
qed

text \<open>
  A wallet of \<open>u1\<close> is stored. Three points with forty rupees taken away are a credit, and
  three points taken away with forty rupees are a debit.
\<close>

theorem appended_transaction_classified_by_points_witness:
  "transactions (fst (applyTransaction walletSchema 2 (JString ''u1'') (Num 3) (JNumber (Num (- 40))) (JString [])
      [\<lparr>w_userId = JString ''u1'', w_points = JNumber (Num 0), w_rupees = JNumber (Num 0),
        w_date = Some 1, totalPoints = JUndefined, totalRupees = JUndefined,
        transactions = None\<rparr>])) =
     Some [\<lparr>tx_points = Num 3, tx_rupees = JNumber (Num (- 40)), tx_type = ''credit'',
            tx_note = JString []\<rparr>] \<and>
   tx_type (new_transaction (Num 3) (JNumber (Num (- 40))) (JString [])) = ''credit'' \<and>
   tx_type (new_transaction (Num (- 3)) (JNumber (Num 40)) (JString [])) = ''debit''"
proof -
  have run: "transactions (fst (applyTransaction walletSchema 2 (JString ''u1'') (Num 3) (JNumber (Num (- 40))) (JString [])
      [\<lparr>w_userId = JString ''u1'', w_points = JNumber (Num 0), w_rupees = JNumber (Num 0),
        w_date = Some 1, totalPoints = JUndefined, totalRupees = JUndefined,
        transactions = None\<rparr>])) =
     Some [\<lparr>tx_points = Num 3, tx_rupees = JNumber (Num (- 40)), tx_type = ''credit'',
            tx_note = JString []\<rparr>]"
    by code_simp
  have signs: "num_ge0 (Num 3)" "\<not> num_ge0 (Num (- 3))"
    by simp_all
  from appended_transaction_classified_by_points [OF surjective_pairing,
      of walletSchema 2 "JString ''u1''" "Num 3" "JNumber (Num (- 40))" "JString []"]
    appended_transaction_classified_by_points [OF surjective_pairing,
      of walletSchema 2 "JString ''u1''" "Num (- 3)" "JNumber (Num 40)" "JString []"]
    run signs
  show ?thesis by blast
qed

section \<open>The ledger under the schema of the source\<close>

text \<open>
  The route \<open>/api/wallet/add\<close> of the second server file writes \<open>totalPoints\<close>,
  \<open>totalRupees\<close> and \<open>transactions\<close>, and \<open>walletSchema\<close> declares none of them. What the
  route hands to the constructor is dropped, what it assigns to a document it found is a
  property of the object in memory, and what is stored for a user is the user id, the
  defaults of \<open>points\<close> and \<open>rupees\<close>, and the date.
\<close>

lemma strict_walletSchema_aggregates:
  "totalPoints (strict walletSchema w) = JUndefined"
  "totalRupees (strict walletSchema w) = JUndefined"
  "transactions (strict walletSchema w) = None"
  by (simp_all add: strict_def write_paths_def declares_def walletSchema_def no_wallet_props_def)

text \<open>Whatever the collection holds, the balance route reads both totals as 0.\<close>

lemma wallet_balance_walletSchema:
  "wallet_balance walletSchema coll userId = Balance (JNumber (Num 0)) (JNumber (Num 0))"
proof (cases "findOne walletSchema coll (JString userId)")
  case None
  then show ?thesis
    by (simp add: wallet_balance_def)
next
  case (Some found)
  obtain i w where "found = (i, w)"
    by (cases found)
  with Some have "findOne walletSchema coll (JString userId) = Some (i, w)"
    by simp
  moreover from this have "w = strict walletSchema (coll ! i)"
    by (rule findOne_SomeD)
  ultimately show ?thesis
    by (simp add: wallet_balance_def strict_walletSchema_aggregates js_or_def)
qed

text \<open>
  Claim C1 says that after every call the wallet's \<open>totalPoints\<close> and \<open>totalRupees\<close> are
  the sums over its transactions. The code at a failing input: the user \<open>u1\<close> is credited
  100 points and 50 rupees, then 1 point. The wallet the second call returns has the one
  transaction of that call, and \<open>NaN\<close> for both totals (\<open>undefined + 1\<close>); the stored
  wallet has neither totals nor transactions.
\<close>

theorem totals_not_kept_by_walletSchema:
  "applyTransaction walletSchema 2 (JString ''u1'') (Num 1) (JNumber (Num 0)) (JString [])
     (snd (applyTransaction walletSchema 1 (JString ''u1'') (Num 100) (JNumber (Num 50)) (JString []) [])) =
   (\<lparr>w_userId = JString ''u1'', w_points = JNumber (Num 0), w_rupees = JNumber (Num 0),
      w_date = Some 1, totalPoints = JNumber NaN, totalRupees = JNumber NaN,
      transactions = Some [\<lparr>tx_points = Num 1, tx_rupees = JNumber (Num 0), tx_type = ''credit'',
                             tx_note = JString []\<rparr>]\<rparr>,
    [\<lparr>w_userId = JString ''u1'', w_points = JNumber (Num 0), w_rupees = JNumber (Num 0),
       w_date = Some 1, totalPoints = JUndefined, totalRupees = JUndefined,
       transactions = None\<rparr>])"
  by code_simp

text \<open>Neither the wallet returned nor the wallet stored satisfies the invariant.\<close>

theorem totals_not_kept_by_walletSchema_witness:
  "\<not> ledger_consistent
       (fst (applyTransaction walletSchema 2 (JString ''u1'') (Num 1) (JNumber (Num 0)) (JString [])
          (snd (applyTransaction walletSchema 1 (JString ''u1'') (Num 100) (JNumber (Num 50)) (JString []) [])))) \<and>
   \<not> list_ex ledger_consistent
       (snd (applyTransaction walletSchema 2 (JString ''u1'') (Num 1) (JNumber (Num 0)) (JString [])
          (snd (applyTransaction walletSchema 1 (JString ''u1'') (Num 100) (JNumber (Num 50)) (JString []) []))))"
  unfolding totals_not_kept_by_walletSchema
  by (simp add: ledger_consistent_def entries_def sum_points_def sum_rupees_def)

text \<open>
  Claim C3 says that the balance after \<open>credit(userID, 100, 50, "test")\<close> on a fresh
  account is 100 points and 50 rupees. The code at that input: the balance read back is 0
  and 0.
\<close>

theorem credit_then_balance_is_zero:
  "wallet_balance walletSchema
     (snd (wallet_add walletSchema 1
        [(''userId'', JString ''u1''), (''points'', JNumber (Num 100)),
         (''rupees'', JNumber (Num 50)), (''note'', JString ''test'')] []))
     ''u1'' = Balance (JNumber (Num 0)) (JNumber (Num 0))"
  by code_simp

theorem credit_then_balance_is_zero_witness:
  "wallet_balance walletSchema
     (snd (wallet_add walletSchema 1
        [(''userId'', JString ''u1''), (''points'', JNumber (Num 100)),
         (''rupees'', JNumber (Num 50)), (''note'', JString ''test'')] []))
     ''u1'' \<noteq> Balance (JNumber (Num 100)) (JNumber (Num 50))"
  unfolding credit_then_balance_is_zero
  by simp

text \<open>
  Claim C10 says that a debit of any size is accepted and applied, so that the totals
  become negative. The code at a failing input: the user \<open>u1\<close> is credited 5 points, then
  a million points are taken away. The second request is accepted as a debit, the totals
  of its answer are \<open>NaN\<close>, and the stored wallet is the one the first request stored.
\<close>

theorem debit_accepted_but_not_applied:
  "wallet_add walletSchema 2
     [(''userId'', JString ''u1''), (''points'', JNumber (Num (- 1000000)))]
     (snd (wallet_add walletSchema 1
        [(''userId'', JString ''u1''), (''points'', JNumber (Num 5))] [])) =
   (Wallet_Updated ''Wallet debited successfully'' (JNumber NaN) (JNumber NaN),
    [\<lparr>w_userId = JString ''u1'', w_points = JNumber (Num 0), w_rupees = JNumber (Num 0),
       w_date = Some 1, totalPoints = JUndefined, totalRupees = JUndefined,
       transactions = None\<rparr>])"
  by code_simp

text \<open>The balance read back after the debit is 0 and 0.\<close>

theorem debit_accepted_but_not_applied_witness:
  "wallet_balance walletSchema
     (snd (wallet_add walletSchema 2
        [(''userId'', JString ''u1''), (''points'', JNumber (Num (- 1000000)))]
        (snd (wallet_add walletSchema 1
           [(''userId'', JString ''u1''), (''points'', JNumber (Num 5))] [])))) ''u1'' =
   Balance (JNumber (Num 0)) (JNumber (Num 0))"
  unfolding debit_accepted_but_not_applied
  by code_simp

text \<open>No debit is refused for its size, under any schema.\<close>

lemma debit_never_refused:
  assumes "truthy (js_get body ''userId'')" and "js_get body ''points'' = JNumber (Num n)"
    and "n < 0"
  shows "\<exists>tp tr. fst (wallet_add sch now body coll) =
           Wallet_Updated ''Wallet debited successfully'' tp tr"
  using assms by (simp add: wallet_add_def Let_def split: prod.splits)

section \<open>The ledger under a schema that declares what the route writes\<close>

text \<open>
  The route itself keeps the ledger: under every schema that declares the user id, the two
  totals and the array, every stored wallet satisfies the invariant after every sequence of
  requests with numeric rupees, and a credit on a fresh account is read back by the balance
  route.
\<close>

lemma ledger_consistent_write_paths:
  assumes "aggregate_schema sch"
  shows "ledger_consistent (write_paths sch old w) \<longleftrightarrow> ledger_consistent w"
  using assms
  by (simp add: ledger_consistent_def aggregate_schema_def entries_write_paths)
     (simp add: write_paths_def)

lemma ledger_consistent_strict:
  "aggregate_schema sch \<Longrightarrow> ledger_consistent (strict sch w) \<longleftrightarrow> ledger_consistent w"
  by (simp add: strict_def ledger_consistent_write_paths)

lemma ledger_consistent_created:
  assumes "aggregate_schema sch"
  shows "ledger_consistent (new_Wallet sch now
        (no_wallet_props\<lparr>w_userId := userId, totalPoints := JNumber points,
           totalRupees := JNumber r,
           transactions := Some [new_transaction points (JNumber r) note]\<rparr>))"
  unfolding new_Wallet_def ledger_consistent_strict [OF assms]
  by (simp add: ledger_consistent_def entries_def sum_points_def sum_rupees_def
        new_transaction_def num_add_zero js_add_numbers)

lemma ledger_consistent_updated:
  assumes "ledger_consistent found"
  shows "ledger_consistent
     (found\<lparr>totalPoints := js_add (totalPoints found) (JNumber points),
            totalRupees := js_add (totalRupees found) rupees,
            transactions := Some (entries found @ [new_transaction points rupees note])\<rparr>)"
  using assms
  by (simp add: ledger_consistent_def entries_def sum_points_snoc sum_rupees_snoc
        js_add_numbers new_transaction_def)

lemma applyTransaction_consistent:
  assumes agg: "aggregate_schema sch"
    and inv: "\<forall>w \<in> set coll. ledger_consistent w"
    and run: "applyTransaction sch now userId points (JNumber r) note coll = (wallet, coll')"
  shows "ledger_consistent wallet \<and> (\<forall>w \<in> set coll'. ledger_consistent w)"
proof (cases "findOne sch coll userId")
  case None
  from run have coll': "coll' = coll @ [strict sch wallet]"
    and wallet: "wallet = new_Wallet sch now
        (no_wallet_props\<lparr>w_userId := userId, totalPoints := JNumber points,
           totalRupees := JNumber r,
           transactions := Some [new_transaction points (JNumber r) note]\<rparr>)"
    unfolding applyTransaction_create [OF None] by auto
  have "ledger_consistent wallet"
    unfolding wallet by (rule ledger_consistent_created [OF agg])
  with inv coll' show ?thesis
    by (auto simp: ledger_consistent_strict [OF agg])
next
  case (Some found)
  obtain i w0 where "found = (i, w0)"
    by (cases found)
  with Some have find: "findOne sch coll userId = Some (i, w0)"
    by simp
  then have i: "i < length coll" and w0: "w0 = strict sch (coll ! i)"
    by (auto dest: findOne_SomeD)
  from inv i have "ledger_consistent w0"
    unfolding w0 by (simp add: ledger_consistent_strict [OF agg])
  then have "ledger_consistent
     (w0\<lparr>totalPoints := js_add (totalPoints w0) (JNumber points),
         totalRupees := js_add (totalRupees w0) (JNumber r),
         transactions := Some (entries w0 @ [new_transaction points (JNumber r) note])\<rparr>)"
    by (rule ledger_consistent_updated)
  with run have wallet: "ledger_consistent wallet"
    and coll': "coll' = coll[i := write_paths sch (coll ! i) wallet]"
    unfolding applyTransaction_update [OF find] by auto
  have "\<forall>w \<in> set coll'. ledger_consistent w"
  proof
    fix w assume "w \<in> set coll'"
    with coll' have "w \<in> set coll \<or> w = write_paths sch (coll ! i) wallet"
      using set_update_subset_insert [of coll i] by auto
    with inv wallet show "ledger_consistent w"
      by (auto simp: ledger_consistent_write_paths [OF agg])
  qed
  with wallet show ?thesis ..
qed

lemma wallet_add_consistent:
  assumes agg: "aggregate_schema sch"
    and inv: "\<forall>w \<in> set coll. ledger_consistent w"
    and num: "rupees_numeric body"
  shows "\<forall>w \<in> set (snd (wallet_add sch now body coll)). ledger_consistent w"
proof -
  from num obtain r where r: "default_to (JNumber (Num 0)) (js_get body ''rupees'') = JNumber r"
    by (auto simp: rupees_numeric_def default_to_def)
  show ?thesis
  proof (cases "\<not> truthy (js_get body ''userId'') \<or> js_typeof (js_get body ''points'') \<noteq> ''number''")
    case True
    with inv show ?thesis
      by (simp add: wallet_add_def Let_def)
  next
    case False
    obtain wallet coll' where run: "applyTransaction sch now (js_get body ''userId'')
        (the_number (js_get body ''points'')) (JNumber r)
        (default_to (JString []) (js_get body ''note'')) coll = (wallet, coll')"
      by (cases "applyTransaction sch now (js_get body ''userId'')
        (the_number (js_get body ''points'')) (JNumber r)
        (default_to (JString []) (js_get body ''note'')) coll")
    from False run r have "snd (wallet_add sch now body coll) = coll'"
      by (simp add: wallet_add_def Let_def)
    with applyTransaction_consistent [OF agg inv run] show ?thesis
      by simp
  qed
qed

lemma wallet_adds_consistent:
  assumes "aggregate_schema sch"
    and "\<forall>w \<in> set coll. ledger_consistent w"
    and "\<forall>(now, body) \<in> set requests. rupees_numeric body"
  shows "\<forall>w \<in> set (wallet_adds sch requests coll). ledger_consistent w"
  using assms(2,3)
proof (induction requests arbitrary: coll)
  case Nil
  then show ?case by simp
next
  case (Cons request requests)
  obtain now body where request: "request = (now, body)"
    by (cases request)
  with Cons.prems have "rupees_numeric body"
    by simp
  from wallet_add_consistent [OF assms(1) Cons.prems(1) this]
  have "\<forall>w \<in> set (snd (wallet_add sch now body coll)). ledger_consistent w" .
  with Cons.IH Cons.prems(2) request show ?case
    by simp
qed

lemma credit_then_balance_aggregate_schema:
  assumes agg: "aggregate_schema sch"
    and fresh: "\<forall>w \<in> set coll. w_userId w \<noteq> JString userId"
    and present: "userId \<noteq> []"
  shows "wallet_balance sch
     (snd (wallet_add sch now
        [(''userId'', JString userId), (''points'', JNumber (Num 100)),
         (''rupees'', JNumber (Num 50)), (''note'', JString ''test'')] coll))
     userId = Balance (JNumber (Num 100)) (JNumber (Num 50))"
proof -
  from fresh have none: "findOne sch coll (JString userId) = None"
    by (simp add: findOne_None_iff)
  let ?wallet = "new_Wallet sch now
        (no_wallet_props\<lparr>w_userId := JString userId, totalPoints := JNumber (Num 100),
           totalRupees := JNumber (Num 50),
           transactions := Some [new_transaction (Num 100) (JNumber (Num 50)) (JString ''test'')]\<rparr>)"
  from agg have fields: "w_userId (strict sch ?wallet) = JString userId"
      "totalPoints (strict sch (strict sch ?wallet)) = JNumber (Num 100)"
      "totalRupees (strict sch (strict sch ?wallet)) = JNumber (Num 50)"
    by (simp_all add: aggregate_schema_def new_Wallet_def strict_def write_paths_def no_wallet_props_def)
  from present have "snd (wallet_add sch now
        [(''userId'', JString userId), (''points'', JNumber (Num 100)),
         (''rupees'', JNumber (Num 50)), (''note'', JString ''test'')] coll) = coll @ [strict sch ?wallet]"
    by (simp add: wallet_add_def Let_def js_get_def default_to_def applyTransaction_create [OF none])
  moreover have "findOne sch (coll @ [strict sch ?wallet]) (JString userId) =
        Some (length coll, strict sch (strict sch ?wallet))"
    using none fields(1) by (simp add: findOne_appended)
  ultimately show ?thesis
    using fields(2,3) by (simp add: wallet_balance_def js_or_def)
qed

end
